theory Spec2Isabelle
  imports Complex_Main "HOL-Library.Sublist" "HOL-Library.Multiset"
begin

section \<open>JavaScript values\<close>

text \<open>
  The handlers of \<^verbatim>\<open>index.js\<close> receive JSON values (the parsed request body, the
  path parameters) and hand JSON values to the Supabase client. A number is an IEEE
  double: every finite double is a rational, and the handlers only ever ask whether a
  number is zero or NaN, so a finite number is modelled by its rational value (\<open>-0\<close> and
  \<open>0\<close> are both \<open>Finite 0\<close>).

  Strings are byte lists. The source's non-ASCII letters are written as their UTF-8
  bytes; the handlers only concatenate and compare strings, which does not depend on
  the encoding.
\<close>

datatype jsnum = Finite rat | PosInfinity | NegInfinity | NaN

datatype jsval =
    JUndefined
  | JNull
  | JBool bool
  | JNum jsnum
  | JStr string
  | JArr "jsval list"
  | JObj "(string \<times> jsval) list"

type_synonym jsobject = "(string \<times> jsval) list"

text \<open>\<^verbatim>\<open>!v\<close> is \<open>\<not> truthy v\<close>: \<^verbatim>\<open>undefined\<close>, \<^verbatim>\<open>null\<close>, \<^verbatim>\<open>false\<close>, \<^verbatim>\<open>0\<close>, \<^verbatim>\<open>NaN\<close> and
  \<^verbatim>\<open>""\<close> are falsy, every other value (all arrays and objects) is truthy.\<close>

fun truthy :: "jsval \<Rightarrow> bool" where
  "truthy JUndefined = False"
| "truthy JNull = False"
| "truthy (JBool b) = b"
| "truthy (JNum n) = (n \<noteq> Finite 0 \<and> n \<noteq> NaN)"
| "truthy (JStr s) = (s \<noteq> [])"
| "truthy (JArr xs) = True"
| "truthy (JObj kvs) = True"

text \<open>Reading a property of an object (\<^verbatim>\<open>const { userId } = req.body\<close>): a property the
  object does not have reads as \<^verbatim>\<open>undefined\<close>.\<close>

definition field :: "jsobject \<Rightarrow> string \<Rightarrow> jsval" where
  "field obj k = (case map_of obj k of None \<Rightarrow> JUndefined | Some v \<Rightarrow> v)"

text \<open>\<^verbatim>\<open>data.id\<close> on an arbitrary value: reading a property of \<^verbatim>\<open>null\<close> or \<^verbatim>\<open>undefined\<close>
  throws a TypeError (\<open>Inl\<close>, with the message V8 gives it); an object yields the property;
  none of the other values has a property named \<^verbatim>\<open>id\<close>.\<close>

definition type_error_message :: "string \<Rightarrow> string \<Rightarrow> string" where
  "type_error_message what k =
     ''Cannot read properties of '' @ what @ '' (reading '' @ [CHR 0x27] @ k @ [CHR 0x27] @ '')''"

fun get_prop :: "jsval \<Rightarrow> string \<Rightarrow> string + jsval" where
  "get_prop JUndefined k = Inl (type_error_message ''undefined'' k)"
| "get_prop JNull k = Inl (type_error_message ''null'' k)"
| "get_prop (JObj kvs) k = Inr (field kvs k)"
| "get_prop v k = Inr JUndefined"

definition a_acute :: string where
  "a_acute = [CHR 0xC3, CHR 0xA1]"

definition o_acute :: string where
  "o_acute = [CHR 0xC3, CHR 0xB3]"

definition mirror_emoji :: string where
  "mirror_emoji = [CHR 0xF0, CHR 0x9F, CHR 0xAA, CHR 0x9E]"

section \<open>The Supabase client, as the handlers call it\<close>

text \<open>
  A store call is one awaited query-builder chain:
  \<^item> \<^verbatim>\<open>from(t).select(cols).eq(c1, v1).eq(c2, v2).order(c, { ascending })\<close>;
  \<^item> \<^verbatim>\<open>from(t).insert(row)\<close>, optionally followed by \<^verbatim>\<open>.select(cols).single()\<close>;
  \<^item> \<^verbatim>\<open>from(t).update(patch).eq(c, v)\<close>.
  The client answers with an object \<^verbatim>\<open>{ data, error }\<close>; \<^verbatim>\<open>error\<close> is \<^verbatim>\<open>null\<close> or an
  error object with a \<^verbatim>\<open>message\<close>.
\<close>

datatype eq_filter = Eq string jsval

datatype store_call =
    Select string string "eq_filter list" "(string \<times> bool) option"
  | Insert string jsobject "string option"
  | Update string jsobject "eq_filter list"

record store_error =
  message :: string

record store_reply =
  data :: jsval
  error :: "store_error option"

section \<open>Responses and handlers\<close>

record response =
  status :: nat
  body :: jsval

text \<open>\<^verbatim>\<open>res.status(n).json(v)\<close>; \<^verbatim>\<open>res.json(v)\<close> alone leaves the status at Express's
  default, 200.\<close>

definition json :: "nat \<Rightarrow> jsval \<Rightarrow> response" where
  "json n v = \<lparr>status = n, body = v\<rparr>"

definition error_body :: "string \<Rightarrow> jsval" where
  "error_body msg = JObj [(''error'', JStr msg)]"

definition message_body :: "string \<Rightarrow> jsval" where
  "message_body msg = JObj [(''message'', JStr msg)]"

text \<open>
  Every handler either answers at once or awaits exactly one store call and answers from
  its reply: there is no loop and no second \<^verbatim>\<open>await\<close> in any of them. The continuation
  is the rest of the \<^verbatim>\<open>try\<close> block together with its \<^verbatim>\<open>catch\<close>.
\<close>

datatype action =
    Respond response
  | Call store_call "store_reply \<Rightarrow> response"

text \<open>
  A request as a handler has it once its first statement has run: the path parameters,
  and the object that \<^verbatim>\<open>const { ... } = req.body\<close> read its properties from.
\<close>

record request =
  params :: "(string \<times> string) list"
  body_of :: jsobject

text \<open>
  That first statement stands before the \<^verbatim>\<open>try\<close> block of every body handler.
  \<^verbatim>\<open>req.body\<close> is what \<^verbatim>\<open>express.json()\<close> left there: the parsed JSON object; an array,
  which has none of the properties asked for; and, when the request carried no JSON
  body, \<^verbatim>\<open>{}\<close> under Express 4 but \<^verbatim>\<open>undefined\<close> under Express 5 (the source does not
  say which one it runs on). Destructuring \<^verbatim>\<open>undefined\<close> or \<^verbatim>\<open>null\<close> throws a TypeError
  that names the first property (\<open>Inl\<close>, with V8's message), and nothing in the handler
  catches it.
\<close>

definition destructure_error :: "string \<Rightarrow> string \<Rightarrow> string" where
  "destructure_error first what =
     ''Cannot destructure property '' @ [CHR 0x27] @ first @ [CHR 0x27] @ '' of '' @
     [CHR 0x27] @ ''req.body'' @ [CHR 0x27] @ '' as it is '' @ what @ ''.''"

fun destructure :: "string \<Rightarrow> jsval \<Rightarrow> string + jsobject" where
  "destructure first JUndefined = Inl (destructure_error first ''undefined'')"
| "destructure first JNull = Inl (destructure_error first ''null'')"
| "destructure first (JObj kvs) = Inr kvs"
| "destructure first v = Inr []"

text \<open>\<^verbatim>\<open>req.params.userId\<close>: a captured path segment is a string, a parameter the route
  did not capture is \<^verbatim>\<open>undefined\<close>.\<close>

definition param :: "(string \<times> string) list \<Rightarrow> string \<Rightarrow> jsval" where
  "param ps k = (case map_of ps k of None \<Rightarrow> JUndefined | Some s \<Rightarrow> JStr s)"

text \<open>\<^verbatim>\<open>app.get('/', ...)\<close>\<close>

definition get_root :: "action" where
  "get_root =
     Respond \<lparr>status = 200,
              body = JStr (''MiEspejo Backend is Active and connected! '' @ mirror_emoji)\<rparr>"

text \<open>\<^verbatim>\<open>app.get('/habits/:userId', ...)\<close>\<close>

definition get_habits :: "request \<Rightarrow> action" where
  "get_habits req =
     (let userId = param (params req) ''userId'' in
      if \<not> truthy userId then
        Respond (json 400 (error_body (''Falta el par'' @ a_acute @ ''metro userId en la URL.'')))
      else
        Call (Select ''habit_types'' ''*''
                [Eq ''user_id'' userId, Eq ''is_active'' (JBool True)]
                (Some (''created_at'', True)))
             (\<lambda>r. case error r of
                     Some err \<Rightarrow>
                       json 500 (error_body (''Error al obtener h'' @ a_acute @ ''bitos: '' @ message err))
                   | None \<Rightarrow> json 200 (data r)))"

text \<open>\<^verbatim>\<open>app.post('/habits', ...)\<close> (present in the second listing only)\<close>

definition post_habits :: "request \<Rightarrow> action" where
  "post_habits req =
     (let userId = field (body_of req) ''userId'';
          nombre = field (body_of req) ''nombre'';
          tipoRegistro = field (body_of req) ''tipoRegistro'';
          metaDiaria = field (body_of req) ''metaDiaria'' in
      if \<not> truthy userId \<or> \<not> truthy nombre \<or> \<not> truthy tipoRegistro then
        Respond (json 400 (error_body ''Faltan campos obligatorios: userId, nombre o tipoRegistro.''))
      else
        Call (Insert ''habit_types''
                [(''user_id'', userId), (''nombre'', nombre),
                 (''tipo_registro'', tipoRegistro), (''meta_diaria'', metaDiaria)]
                None)
             (\<lambda>r. case error r of
                     Some err \<Rightarrow>
                       json 500 (error_body (''Error al crear h'' @ a_acute @ ''bito: '' @ message err))
                   | None \<Rightarrow>
                       json 201 (message_body (''H'' @ a_acute @ ''bito creado correctamente''))))"

text \<open>\<^verbatim>\<open>app.post('/logs/event', ...)\<close>; \<open>now\<close> is \<^verbatim>\<open>new Date().toISOString()\<close>.\<close>

definition post_logs_event :: "string \<Rightarrow> request \<Rightarrow> action" where
  "post_logs_event now req =
     (let userId = field (body_of req) ''userId'';
          habitTypeId = field (body_of req) ''habitTypeId'' in
      if \<not> truthy userId \<or> \<not> truthy habitTypeId then
        Respond (json 400 (error_body
          (''Faltan userId o habitTypeId en el cuerpo de la petici'' @ o_acute @ ''n.'')))
      else
        Call (Insert ''habit_logs''
                [(''user_id'', userId), (''habit_type_id'', habitTypeId),
                 (''fecha_inicio'', JStr now)]
                None)
             (\<lambda>r. case error r of
                     Some err \<Rightarrow>
                       json 500 (error_body (''Error al registrar evento: '' @ message err))
                   | None \<Rightarrow> json 201 (message_body ''Evento registrado'')))"

text \<open>\<^verbatim>\<open>app.post('/logs/session/start', ...)\<close>. The insert is followed by
  \<^verbatim>\<open>.select('id').single()\<close>; \<^verbatim>\<open>data.id\<close> is read inside the \<^verbatim>\<open>try\<close> block, so a
  TypeError there is answered by the \<^verbatim>\<open>catch\<close> branch as well.\<close>

definition post_logs_session_start :: "string \<Rightarrow> request \<Rightarrow> action" where
  "post_logs_session_start now req =
     (let userId = field (body_of req) ''userId'';
          habitTypeId = field (body_of req) ''habitTypeId'' in
      if \<not> truthy userId \<or> \<not> truthy habitTypeId then
        Respond (json 400 (error_body
          (''Faltan userId o habitTypeId en el cuerpo de la petici'' @ o_acute @ ''n.'')))
      else
        Call (Insert ''habit_logs''
                [(''user_id'', userId), (''habit_type_id'', habitTypeId),
                 (''fecha_inicio'', JStr now)]
                (Some ''id''))
             (\<lambda>r. case error r of
                     Some err \<Rightarrow>
                       json 500 (error_body (''Error al iniciar sesi'' @ o_acute @ ''n: '' @ message err))
                   | None \<Rightarrow>
                       (case get_prop (data r) ''id'' of
                          Inl msg \<Rightarrow>
                            json 500 (error_body (''Error al iniciar sesi'' @ o_acute @ ''n: '' @ msg))
                        | Inr v \<Rightarrow> json 201 (JObj [(''logId'', v)]))))"

text \<open>\<^verbatim>\<open>app.put('/logs/session/end', ...)\<close>. The source's comment on the check:
  \<^verbatim>\<open>durationSeconds puede ser 0, por eso no usamos !durationSeconds\<close>.\<close>

definition put_logs_session_end :: "string \<Rightarrow> request \<Rightarrow> action" where
  "put_logs_session_end now req =
     (let logId = field (body_of req) ''logId'';
          durationSeconds = field (body_of req) ''durationSeconds'';
          notas = field (body_of req) ''notas'' in
      if \<not> truthy logId \<or> durationSeconds = JUndefined then
        Respond (json 400 (error_body
          (''Faltan logId o durationSeconds en el cuerpo de la petici'' @ o_acute @ ''n.'')))
      else
        Call (Update ''habit_logs''
                [(''fecha_fin'', JStr now), (''duracion_segundos'', durationSeconds),
                 (''notas'', notas)]
                [Eq ''id'' logId])
             (\<lambda>r. case error r of
                     Some err \<Rightarrow>
                       json 500 (error_body (''Error al finalizar sesi'' @ o_acute @ ''n: '' @ message err))
                   | None \<Rightarrow>
                       json 200 (message_body (''Sesi'' @ o_acute @ ''n finalizada correctamente''))))"

text \<open>The five operations of the API, and the handler of each.\<close>

datatype operation = ListHabits | CreateHabit | LogEvent | StartSession | EndSession

fun handler :: "operation \<Rightarrow> string \<Rightarrow> request \<Rightarrow> action" where
  "handler ListHabits now req = get_habits req"
| "handler CreateHabit now req = post_habits req"
| "handler LogEvent now req = post_logs_event now req"
| "handler StartSession now req = post_logs_session_start now req"
| "handler EndSession now req = put_logs_session_end now req"

text \<open>Running a handler against a client that answers each call with \<open>s\<close> gives the
  response and the calls made, in order.\<close>

fun run :: "(store_call \<Rightarrow> store_reply) \<Rightarrow> action \<Rightarrow> response \<times> store_call list" where
  "run s (Respond r) = (r, [])"
| "run s (Call c k) = (k (s c), [c])"

section \<open>Routing\<close>

text \<open>
  Modelled from the spec: the router and the final handler of Express. Express is a
  dependency of the program and is not under \<^verbatim>\<open>src/\<close>. The spec (section 6) gives every
  operation its method and path, and the source registers each handler under them with
  \<^verbatim>\<open>app.get\<close>, \<^verbatim>\<open>app.post\<close> and \<^verbatim>\<open>app.put\<close>; how a request finds its handler is
  Express's part:
  \<^item> the routes are tried in the order of their registration, the path first and the
    HTTP verb second;
  \<^item> a pattern such as \<^verbatim>\<open>/habits/:userId\<close> is compiled (routing is neither strict nor
    case sensitive by default) to \<^verbatim>\<open>^\/habits\/(?:([^\/]+?))\/?$\<close> with flag \<^verbatim>\<open>i\<close>:
    literal segments compare without case, a named parameter takes one or more
    characters other than \<^verbatim>\<open>/\<close>, and one trailing \<^verbatim>\<open>/\<close> is optional;
  \<^item> a captured segment is decoded with \<^verbatim>\<open>decodeURIComponent\<close>; when that throws, no
    route matches any more and the final handler answers 400;
  \<^item> when no route matches, the final handler answers 404.
  The final handler answers with an HTML page of its own, of which only the status is
  kept. The path is the request path without its query string, in ASCII as a URL is.
\<close>

datatype http_method = GET | POST | PUT | PATCH | DELETE

definition lower :: "char \<Rightarrow> char" where
  "lower c =
     (case map_of (zip ''ABCDEFGHIJKLMNOPQRSTUVWXYZ'' ''abcdefghijklmnopqrstuvwxyz'') c of
        None \<Rightarrow> c
      | Some d \<Rightarrow> d)"

fun split_on :: "char \<Rightarrow> string \<Rightarrow> string list" where
  "split_on c [] = [[]]"
| "split_on c (x # xs) =
     (if x = c then [] # split_on c xs
      else (case split_on c xs of [] \<Rightarrow> [[x]] | s # ss \<Rightarrow> (x # s) # ss))"

text \<open>The segments of a path or pattern that starts with \<^verbatim>\<open>/\<close>, one trailing \<^verbatim>\<open>/\<close>
  dropped.\<close>

definition segments :: "string \<Rightarrow> string list option" where
  "segments p =
     (case p of
        [] \<Rightarrow> None
      | c # rest \<Rightarrow>
          if c \<noteq> CHR ''/'' then None
          else (let ss = split_on (CHR ''/'') rest
                in Some (if ss \<noteq> [] \<and> last ss = [] then butlast ss else ss)))"

fun match_segs :: "string list \<Rightarrow> string list \<Rightarrow> (string \<times> string) list option" where
  "match_segs [] [] = Some []"
| "match_segs (p # ps) (s # ss) =
     (case p of
        [] \<Rightarrow> None
      | c # name \<Rightarrow>
          if c = CHR '':'' then
            (if s = [] then None else map_option ((#) (name, s)) (match_segs ps ss))
          else if map lower s = map lower p then match_segs ps ss
          else None)"
| "match_segs [] (s # ss) = None"
| "match_segs (p # ps) [] = None"

definition match_path :: "string \<Rightarrow> string \<Rightarrow> (string \<times> string) list option" where
  "match_path pattern path =
     (case (segments pattern, segments path) of
        (Some ps, Some ss) \<Rightarrow> match_segs ps ss
      | _ \<Rightarrow> None)"

text \<open>
  \<^verbatim>\<open>decodeURIComponent\<close>: every \<^verbatim>\<open>%\<close> must be followed by two hexadecimal digits, and
  the escaped bytes from \<^verbatim>\<open>0x80\<close> on must spell well-formed UTF-8, each byte of a
  sequence escaped; otherwise it throws a URIError (\<open>None\<close>). The decoded text is kept
  as its UTF-8 bytes, like every string here.
\<close>

definition hex_value :: "char \<Rightarrow> nat option" where
  "hex_value c =
     map_of (zip ''0123456789'' [0 ..< 10] @ zip ''abcdef'' [10 ..< 16] @
             zip ''ABCDEF'' [10 ..< 16]) c"

datatype token = Plain char | Escaped nat

fun tokens :: "string \<Rightarrow> token list option" where
  "tokens [] = Some []"
| "tokens [c] = (if c = CHR ''%'' then None else Some [Plain c])"
| "tokens [c, h] =
     (if c = CHR ''%'' then None else map_option ((#) (Plain c)) (tokens [h]))"
| "tokens (c # h # l # rest) =
     (if c = CHR ''%'' then
        (case (hex_value h, hex_value l) of
           (Some a, Some b) \<Rightarrow> map_option ((#) (Escaped (16 * a + b))) (tokens rest)
         | _ \<Rightarrow> None)
      else map_option ((#) (Plain c)) (tokens (h # l # rest)))"

text \<open>The ranges of the bytes that may follow a leading byte of well-formed UTF-8.\<close>

definition trail :: "nat \<Rightarrow> (nat \<times> nat) list option" where
  "trail n =
     (if 0xC2 \<le> n \<and> n \<le> 0xDF then Some [(0x80, 0xBF)]
      else if n = 0xE0 then Some [(0xA0, 0xBF), (0x80, 0xBF)]
      else if 0xE1 \<le> n \<and> n \<le> 0xEC then Some [(0x80, 0xBF), (0x80, 0xBF)]
      else if n = 0xED then Some [(0x80, 0x9F), (0x80, 0xBF)]
      else if 0xEE \<le> n \<and> n \<le> 0xEF then Some [(0x80, 0xBF), (0x80, 0xBF)]
      else if n = 0xF0 then Some [(0x90, 0xBF), (0x80, 0xBF), (0x80, 0xBF)]
      else if 0xF1 \<le> n \<and> n \<le> 0xF3 then Some [(0x80, 0xBF), (0x80, 0xBF), (0x80, 0xBF)]
      else if n = 0xF4 then Some [(0x80, 0x8F), (0x80, 0xBF), (0x80, 0xBF)]
      else None)"

text \<open>\<open>utf8 expected ts\<close>: the bytes of the tokens \<open>ts\<close>, where \<open>expected\<close> are the ranges
  of the bytes still owed to the sequence under way.\<close>

fun utf8 :: "(nat \<times> nat) list \<Rightarrow> token list \<Rightarrow> string option" where
  "utf8 [] [] = Some []"
| "utf8 (r # rs) [] = None"
| "utf8 [] (Plain c # ts) = map_option ((#) c) (utf8 [] ts)"
| "utf8 [] (Escaped n # ts) =
     (if n < 0x80 then map_option ((#) (char_of n)) (utf8 [] ts)
      else (case trail n of
              None \<Rightarrow> None
            | Some rs \<Rightarrow> map_option ((#) (char_of n)) (utf8 rs ts)))"
| "utf8 (r # rs) (Plain c # ts) = None"
| "utf8 (r # rs) (Escaped n # ts) =
     (if fst r \<le> n \<and> n \<le> snd r then map_option ((#) (char_of n)) (utf8 rs ts) else None)"

definition decodeURIComponent :: "string \<Rightarrow> string option" where
  "decodeURIComponent s = (case tokens s of None \<Rightarrow> None | Some ts \<Rightarrow> utf8 [] ts)"

fun decode_params :: "(string \<times> string) list \<Rightarrow> (string \<times> string) list option" where
  "decode_params [] = Some []"
| "decode_params ((k, v) # kvs) =
     (case decodeURIComponent v of
        None \<Rightarrow> None
      | Some v' \<Rightarrow> map_option ((#) (k, v')) (decode_params kvs))"

text \<open>
  What becomes of a request: Express answers by itself with a status; or the handler
  throws at its first statement, and the promise it returned is rejected (Express 5
  answers that with 500, Express 4 does not answer it); or the handler runs.
\<close>

datatype outcome =
    ByExpress nat
  | Thrown string
  | Handled action

text \<open>How a registered handler starts: \<open>on_params\<close> for the two that do not touch
  \<^verbatim>\<open>req.body\<close>, \<open>on_body\<close> for those whose first statement destructures it, with the first
  property they name. \<open>b\<close> is \<^verbatim>\<open>req.body\<close>.\<close>

type_synonym entry = "string \<Rightarrow> (string \<times> string) list \<Rightarrow> jsval \<Rightarrow> outcome"

definition on_params :: "(request \<Rightarrow> action) \<Rightarrow> entry" where
  "on_params h now ps b = Handled (h \<lparr>params = ps, body_of = []\<rparr>)"

definition on_body :: "string \<Rightarrow> (string \<Rightarrow> request \<Rightarrow> action) \<Rightarrow> entry" where
  "on_body first h now ps b =
     (case destructure first b of
        Inl msg \<Rightarrow> Thrown msg
      | Inr obj \<Rightarrow> Handled (h now \<lparr>params = ps, body_of = obj\<rparr>))"

type_synonym route = "http_method \<times> string \<times> entry"

text \<open>The routes of the first listing (\<^verbatim>\<open>index.js\<close>) and of the second one, which adds
  \<^verbatim>\<open>POST /habits\<close>; the handlers the two listings share are the same text.\<close>

definition routes_index_js :: "route list" where
  "routes_index_js =
     [(GET, ''/'', on_params (\<lambda>req. get_root)),
      (GET, ''/habits/:userId'', on_params get_habits),
      (POST, ''/logs/event'', on_body ''userId'' post_logs_event),
      (POST, ''/logs/session/start'', on_body ''userId'' post_logs_session_start),
      (PUT, ''/logs/session/end'', on_body ''logId'' put_logs_session_end)]"

definition routes_part_000 :: "route list" where
  "routes_part_000 =
     [(GET, ''/'', on_params (\<lambda>req. get_root)),
      (GET, ''/habits/:userId'', on_params get_habits),
      (POST, ''/habits'', on_body ''userId'' (\<lambda>now. post_habits)),
      (POST, ''/logs/event'', on_body ''userId'' post_logs_event),
      (POST, ''/logs/session/start'', on_body ''userId'' post_logs_session_start),
      (PUT, ''/logs/session/end'', on_body ''logId'' put_logs_session_end)]"

fun dispatch :: "route list \<Rightarrow> http_method \<Rightarrow> string \<Rightarrow> jsval \<Rightarrow> string \<Rightarrow> outcome" where
  "dispatch [] m path b now = ByExpress 404"
| "dispatch ((m', pattern, e) # rs) m path b now =
     (case match_path pattern path of
        None \<Rightarrow> dispatch rs m path b now
      | Some captured \<Rightarrow>
          (case decode_params captured of
             None \<Rightarrow> ByExpress 400
           | Some ps \<Rightarrow> if m' = m then e now ps b else dispatch rs m path b now))"

section \<open>The row store\<close>

text \<open>
  Modelled from the spec: the row store collaborator. It is the hosted database behind
  the Supabase client, an external service that is not under \<^verbatim>\<open>src/\<close>. The spec
  (4.1 and 9) describes it as \<^verbatim>\<open>select(table, filters, order) -> rows\<close>,
  \<^verbatim>\<open>insert(table, row)\<close>, \<^verbatim>\<open>update(table, id, patch)\<close> over named tables, to be replaced
  by an in-memory fake in tests. This is that fake: a table is the list of its rows in
  insertion order, \<^verbatim>\<open>eq\<close> compares a column with a value, \<^verbatim>\<open>order\<close> sorts stably, an
  insert appends one row and an update patches the rows its filters select. The client
  sends a payload as JSON, so a property whose value is \<^verbatim>\<open>undefined\<close> is not sent.

  What neither the source nor the spec gives is the schema of the tables, so it is a
  parameter: \<open>generated sc t rows\<close> are the columns the store fills in by itself for a
  new row of table \<open>t\<close> (its id, its defaults) when the table holds \<open>rows\<close>, and \<open>rank sc\<close>
  is the position of a column value in the column's order.
\<close>

type_synonym row = jsobject

type_synonym db = "string \<Rightarrow> row list"

record schema =
  generated :: "string \<Rightarrow> row list \<Rightarrow> row"
  rank :: "jsval \<Rightarrow> int"

definition sent :: "jsobject \<Rightarrow> jsobject" where
  "sent obj = filter (\<lambda>kv. snd kv \<noteq> JUndefined) obj"

fun set_field :: "string \<Rightarrow> jsval \<Rightarrow> row \<Rightarrow> row" where
  "set_field k v [] = [(k, v)]"
| "set_field k v (kv # r) = (if fst kv = k then (k, v) # r else kv # set_field k v r)"

definition assign :: "row \<Rightarrow> jsobject \<Rightarrow> row" where
  "assign r patch = fold (\<lambda>kv. set_field (fst kv) (snd kv)) patch r"

fun holds :: "row \<Rightarrow> eq_filter \<Rightarrow> bool" where
  "holds r (Eq c v) = (field r c = v)"

definition matches :: "eq_filter list \<Rightarrow> row \<Rightarrow> bool" where
  "matches fs r = list_all (holds r) fs"

definition project :: "string \<Rightarrow> row \<Rightarrow> row" where
  "project cols r = (if cols = ''*'' then r else [(cols, field r cols)])"

fun ordered :: "schema \<Rightarrow> (string \<times> bool) option \<Rightarrow> row list \<Rightarrow> row list" where
  "ordered sc None rows = rows"
| "ordered sc (Some (c, ascending)) rows =
     (let sorted_rows = sort_key (\<lambda>r. rank sc (field r c)) rows
      in if ascending then sorted_rows else rev sorted_rows)"

definition ok :: "jsval \<Rightarrow> store_reply" where
  "ok v = \<lparr>data = v, error = None\<rparr>"

fun store_exec :: "schema \<Rightarrow> store_call \<Rightarrow> db \<Rightarrow> store_reply \<times> db" where
  "store_exec sc (Select t cols fs ord) d =
     (ok (JArr (map (\<lambda>r. JObj (project cols r)) (ordered sc ord (filter (matches fs) (d t))))), d)"
| "store_exec sc (Insert t payload returning) d =
     (let r = assign (generated sc t (d t)) (sent payload)
      in (ok (case returning of None \<Rightarrow> JNull | Some cols \<Rightarrow> JObj (project cols r)),
          d(t := d t @ [r])))"
| "store_exec sc (Update t patch fs) d =
     (ok JNull, d(t := map (\<lambda>r. if matches fs r then assign r (sent patch) else r) (d t)))"

text \<open>A handler run against the row store: the response and the store afterwards.\<close>

fun run_db :: "schema \<Rightarrow> action \<Rightarrow> db \<Rightarrow> response \<times> db" where
  "run_db sc (Respond r) d = (r, d)"
| "run_db sc (Call c k) d = (k (fst (store_exec sc c d)), snd (store_exec sc c d))"

section \<open>Vocabulary of the properties\<close>

text \<open>The fields each handler checks before it calls the store, and where it reads
  them: the list handler from \<^verbatim>\<open>req.params\<close>, the others from \<^verbatim>\<open>req.body\<close>.\<close>

fun required :: "operation \<Rightarrow> string list" where
  "required ListHabits = [''userId'']"
| "required CreateHabit = [''userId'', ''nombre'', ''tipoRegistro'']"
| "required LogEvent = [''userId'', ''habitTypeId'']"
| "required StartSession = [''userId'', ''habitTypeId'']"
| "required EndSession = [''logId'', ''durationSeconds'']"

fun input :: "operation \<Rightarrow> request \<Rightarrow> string \<Rightarrow> jsval" where
  "input ListHabits req k = param (params req) k"
| "input CreateHabit req k = field (body_of req) k"
| "input LogEvent req k = field (body_of req) k"
| "input StartSession req k = field (body_of req) k"
| "input EndSession req k = field (body_of req) k"

text \<open>The answer of each handler's validation branch.\<close>

fun rejection :: "operation \<Rightarrow> response" where
  "rejection ListHabits =
     \<lparr>status = 400,
      body = JObj [(''error'', JStr (''Falta el par'' @ a_acute @ ''metro userId en la URL.''))]\<rparr>"
| "rejection CreateHabit =
     \<lparr>status = 400,
      body = JObj [(''error'',
        JStr ''Faltan campos obligatorios: userId, nombre o tipoRegistro.'')]\<rparr>"
| "rejection LogEvent =
     \<lparr>status = 400,
      body = JObj [(''error'',
        JStr (''Faltan userId o habitTypeId en el cuerpo de la petici'' @ o_acute @ ''n.''))]\<rparr>"
| "rejection StartSession =
     \<lparr>status = 400,
      body = JObj [(''error'',
        JStr (''Faltan userId o habitTypeId en el cuerpo de la petici'' @ o_acute @ ''n.''))]\<rparr>"
| "rejection EndSession =
     \<lparr>status = 400,
      body = JObj [(''error'',
        JStr (''Faltan logId o durationSeconds en el cuerpo de la petici'' @ o_acute @ ''n.''))]\<rparr>"

text \<open>The Spanish description of the failing operation, the text before the colon in
  each handler's \<^verbatim>\<open>catch\<close> branch.\<close>

fun description :: "operation \<Rightarrow> string" where
  "description ListHabits = ''Error al obtener h'' @ a_acute @ ''bitos''"
| "description CreateHabit = ''Error al crear h'' @ a_acute @ ''bito''"
| "description LogEvent = ''Error al registrar evento''"
| "description StartSession = ''Error al iniciar sesi'' @ o_acute @ ''n''"
| "description EndSession = ''Error al finalizar sesi'' @ o_acute @ ''n''"

text \<open>The request with the field \<open>f\<close> removed from its parameters and its body.\<close>

definition without :: "string \<Rightarrow> request \<Rightarrow> request" where
  "without f req =
     \<lparr>params = filter (\<lambda>kv. fst kv \<noteq> f) (params req),
      body_of = filter (\<lambda>kv. fst kv \<noteq> f) (body_of req)\<rparr>"

text \<open>Clients for concrete runs: one that answers every call with the data \<open>v\<close>, one
  that reports the error \<open>msg\<close> on every call.\<close>

definition replying :: "jsval \<Rightarrow> store_call \<Rightarrow> store_reply" where
  "replying v c = ok v"

definition failing :: "string \<Rightarrow> store_call \<Rightarrow> store_reply" where
  "failing msg c = \<lparr>data = JNull, error = Some \<lparr>message = msg\<rparr>\<rparr>"

text \<open>Requests for concrete runs.\<close>

definition body_request :: "jsobject \<Rightarrow> request" where
  "body_request b = \<lparr>params = [], body_of = b\<rparr>"

definition param_request :: "(string \<times> string) list \<Rightarrow> request" where
  "param_request ps = \<lparr>params = ps, body_of = []\<rparr>"

definition noon :: string where
  "noon = ''2026-01-01T12:00:00.000Z''"

text \<open>The columns a store call writes.\<close>

fun written :: "store_call \<Rightarrow> string list" where
  "written (Select t cols fs ord) = []"
| "written (Insert t payload returning) = map fst payload"
| "written (Update t patch fs) = map fst patch"

text \<open>A schema and stores for concrete runs: \<open>serial_schema\<close> numbers the rows of a
  table and marks a new row active.\<close>

fun number_rank :: "jsval \<Rightarrow> int" where
  "number_rank (JNum (Finite q)) = \<lfloor>q\<rfloor>"
| "number_rank v = 0"

definition serial_schema :: schema where
  "serial_schema =
     \<lparr>generated = (\<lambda>t rows.
        [(''id'', JNum (Finite (of_nat (length rows) + 1))),
         (''is_active'', JBool True),
         (''created_at'', JNum (Finite (of_nat (length rows))))]),
      rank = number_rank\<rparr>"

definition three_habits :: db where
  "three_habits t =
     (if t = ''habit_types'' then
        [[(''id'', JNum (Finite 1)), (''user_id'', JStr ''u1''), (''nombre'', JStr ''Leer''),
          (''is_active'', JBool True), (''created_at'', JNum (Finite 20))],
         [(''id'', JNum (Finite 2)), (''user_id'', JStr ''u1''), (''nombre'', JStr ''Correr''),
          (''is_active'', JBool True), (''created_at'', JNum (Finite 10))],
         [(''id'', JNum (Finite 3)), (''user_id'', JStr ''u1''), (''nombre'', JStr ''Fumar''),
          (''is_active'', JBool False), (''created_at'', JNum (Finite 5))]]
      else [])"

definition two_sessions :: db where
  "two_sessions t =
     (if t = ''habit_logs'' then
        [[(''id'', JNum (Finite 1)), (''user_id'', JStr ''u1''), (''habit_type_id'', JStr ''h1''),
          (''fecha_inicio'', JStr ''2026-01-01T11:00:00.000Z'')],
         [(''id'', JNum (Finite 2)), (''user_id'', JStr ''u2''), (''habit_type_id'', JStr ''h2''),
          (''fecha_inicio'', JStr ''2026-01-01T11:30:00.000Z'')]]
      else [])"

definition end_request :: request where
  "end_request =
     body_request [(''logId'', JNum (Finite 1)), (''durationSeconds'', JNum (Finite 120)),
                   (''notas'', JStr ''done'')]"

definition start_request :: request where
  "start_request = body_request [(''userId'', JStr ''u1''), (''habitTypeId'', JStr ''h1'')]"

section \<open>Validation\<close>

lemmas handler_defs = get_habits_def post_habits_def post_logs_event_def
  post_logs_session_start_def put_logs_session_end_def

lemmas response_defs = json_def error_body_def message_body_def

lemma names_userId_list:
  "sublist ''userId'' (''Falta el par'' @ a_acute @ ''metro userId en la URL.'')"
  by (simp add: a_acute_def sublist_Cons_right)

lemma names_create:
  "f \<in> set (required CreateHabit) \<Longrightarrow>
   sublist f ''Faltan campos obligatorios: userId, nombre o tipoRegistro.''"
  by (auto simp: sublist_Cons_right)

lemma names_log:
  "f \<in> set (required LogEvent) \<Longrightarrow>
   sublist f (''Faltan userId o habitTypeId en el cuerpo de la petici'' @ o_acute @ ''n.'')"
  by (auto simp: sublist_Cons_right)

lemma names_end:
  "f \<in> set (required EndSession) \<Longrightarrow>
   sublist f (''Faltan logId o durationSeconds en el cuerpo de la petici'' @ o_acute @ ''n.'')"
  by (auto simp: sublist_Cons_right)

text \<open>
  C1, as the code has it. \<^verbatim>\<open>logId\<close> is checked with \<^verbatim>\<open>!logId\<close>, so it must be truthy and
  not merely present; \<^verbatim>\<open>durationSeconds\<close> is only compared with \<^verbatim>\<open>undefined\<close>, so 0 and
  \<^verbatim>\<open>null\<close> pass. For every end-session request with a truthy \<^verbatim>\<open>logId\<close> and a
  \<^verbatim>\<open>durationSeconds\<close> other than \<^verbatim>\<open>undefined\<close>, the handler does not answer 400; it makes
  exactly one store call, the update of \<^verbatim>\<open>habit_logs\<close> filtered by \<^verbatim>\<open>id = logId\<close> that
  sets \<^verbatim>\<open>fecha_fin\<close> to the server time, \<^verbatim>\<open>duracion_segundos\<close> to \<^verbatim>\<open>durationSeconds\<close> and
  \<^verbatim>\<open>notas\<close> to the supplied \<^verbatim>\<open>notas\<close>; when the store reports no error, the response is 200
  with the message \<^verbatim>\<open>Sesion finalizada correctamente\<close>.
\<close>

theorem end_session_valid:
  assumes "truthy (field (body_of req) ''logId'')"
    and "field (body_of req) ''durationSeconds'' \<noteq> JUndefined"
  shows "let c = Update ''habit_logs''
                   [(''fecha_fin'', JStr now),
                    (''duracion_segundos'', field (body_of req) ''durationSeconds''),
                    (''notas'', field (body_of req) ''notas'')]
                   [Eq ''id'' (field (body_of req) ''logId'')]
         in status (fst (run s (put_logs_session_end now req))) \<noteq> 400 \<and>
            snd (run s (put_logs_session_end now req)) = [c] \<and>
            (error (s c) = None \<longrightarrow>
               fst (run s (put_logs_session_end now req)) =
                 \<lparr>status = 200,
                  body = JObj [(''message'',
                                JStr (''Sesi'' @ o_acute @ ''n finalizada correctamente''))]\<rparr>)"
  using assms
  by (auto simp: put_logs_session_end_def Let_def json_def error_body_def message_body_def
      split: option.splits)

theorem end_session_valid_witness:
  "run (replying JNull)
     (put_logs_session_end noon
        (body_request [(''logId'', JNum (Finite 42)), (''durationSeconds'', JNum (Finite 0))])) =
   (\<lparr>status = 200,
     body = JObj [(''message'', JStr (''Sesi'' @ o_acute @ ''n finalizada correctamente''))]\<rparr>,
    [Update ''habit_logs''
       [(''fecha_fin'', JStr noon), (''duracion_segundos'', JNum (Finite 0)),
        (''notas'', JUndefined)]
       [Eq ''id'' (JNum (Finite 42))]])"
proof -
  let ?req = "body_request [(''logId'', JNum (Finite 42)), (''durationSeconds'', JNum (Finite 0))]"
  have present: "truthy (field (body_of ?req) ''logId'')"
    by (simp add: body_request_def field_def)
  have duration: "field (body_of ?req) ''durationSeconds'' \<noteq> JUndefined"
    by (simp add: body_request_def field_def)
  from end_session_valid [OF present duration, where s = "replying JNull" and now = noon]
  show ?thesis
    by (simp add: Let_def body_request_def field_def replying_def ok_def prod_eq_iff)
qed

text \<open>C1 as stated fails: a body whose \<^verbatim>\<open>logId\<close> is present with the value 0 (and whose
  \<^verbatim>\<open>durationSeconds\<close> is present) is answered 400, without a store call.\<close>

theorem end_session_logId_zero_counterexample:
  "map_of [(''logId'', JNum (Finite 0)), (''durationSeconds'', JNum (Finite 120))] ''logId''
     = Some (JNum (Finite 0)) \<and>
   put_logs_session_end noon
     (body_request [(''logId'', JNum (Finite 0)), (''durationSeconds'', JNum (Finite 120))]) =
   Respond
     \<lparr>status = 400,
      body = JObj [(''error'',
        JStr (''Faltan logId o durationSeconds en el cuerpo de la petici'' @ o_acute @ ''n.''))]\<rparr>"
  by (simp add: put_logs_session_end_def body_request_def field_def json_def error_body_def)

text \<open>
  The validation branch of every handler: a handler that is run on a request in which
  one of its required fields reads as \<^verbatim>\<open>undefined\<close> answers 400 with a body
  \<^verbatim>\<open>{ error: msg }\<close> whose message is not empty and contains the name of the field, and
  makes no store call.
\<close>

lemma validation_rejects_missing_field:
  assumes "f \<in> set (required op)" and "input op req f = JUndefined"
  shows "\<exists>msg. run s (handler op now req) =
                 (\<lparr>status = 400, body = JObj [(''error'', JStr msg)]\<rparr>, [])
               \<and> msg \<noteq> [] \<and> sublist f msg"
proof (cases op)
  case ListHabits
  with assms show ?thesis
    using names_userId_list by (simp add: get_habits_def Let_def json_def error_body_def)
next
  case CreateHabit
  with assms show ?thesis
    using names_create [of f] by (auto simp: post_habits_def Let_def json_def error_body_def)
next
  case LogEvent
  with assms show ?thesis
    using names_log [of f] by (auto simp: post_logs_event_def Let_def json_def error_body_def)
next
  case StartSession
  with assms show ?thesis
    using names_log [of f]
    by (auto simp: post_logs_session_start_def Let_def json_def error_body_def)
next
  case EndSession
  with assms show ?thesis
    using names_end [of f]
    by (auto simp: put_logs_session_end_def Let_def json_def error_body_def)
qed

text \<open>A required field that is falsy takes the validation branch; \<^verbatim>\<open>durationSeconds\<close>
  is the one field that is not tested for falsiness.\<close>

lemma falsy_rejected:
  assumes "f \<in> set (required op)" and "f \<noteq> ''durationSeconds''"
    and "\<not> truthy (input op req f)"
  shows "handler op now req = Respond (rejection op)"
proof (cases op)
  case ListHabits
  with assms show ?thesis by (simp add: get_habits_def response_defs)
next
  case CreateHabit
  with assms show ?thesis by (auto simp add: post_habits_def response_defs Let_def)
next
  case LogEvent
  with assms show ?thesis by (auto simp add: post_logs_event_def response_defs Let_def)
next
  case StartSession
  with assms show ?thesis by (auto simp add: post_logs_session_start_def response_defs Let_def)
next
  case EndSession
  with assms show ?thesis by (auto simp add: put_logs_session_end_def response_defs Let_def)
qed

lemma map_of_without_same: "map_of (filter (\<lambda>kv. fst kv \<noteq> f) xs) f = None"
  by (induction xs) auto

lemma field_without_same [simp]: "field (body_of (without f req)) f = JUndefined"
  by (simp add: field_def without_def map_of_without_same)

lemma param_without_same [simp]: "param (params (without f req)) f = JUndefined"
  by (simp add: param_def without_def map_of_without_same)

lemma input_without_same: "input op (without f req) f = JUndefined"
  by (cases op) simp_all

lemma status_rejection: "status (rejection op) = 400"
  by (cases op) simp_all

text \<open>
  C9. Presence of a required field is tested by falsiness: for every operation and every
  request in which a required field other than \<^verbatim>\<open>durationSeconds\<close> is falsy (present or
  not), the handler answers 400, makes no store call, and its run is the run on the
  request with that field removed. \<^verbatim>\<open>durationSeconds\<close> is only compared with
  \<^verbatim>\<open>undefined\<close>: with a truthy \<^verbatim>\<open>logId\<close>, the end-session handler stays away from the store
  exactly when \<^verbatim>\<open>durationSeconds\<close> is \<^verbatim>\<open>undefined\<close>, so 0 and \<^verbatim>\<open>null\<close> pass.
\<close>

theorem falsy_required_field:
  "(f \<in> set (required op) \<and> f \<noteq> ''durationSeconds'' \<and> \<not> truthy (input op req f) \<longrightarrow>
      status (fst (run s (handler op now req))) = 400 \<and>
      snd (run s (handler op now req)) = [] \<and>
      run s (handler op now req) = run s (handler op now (without f req))) \<and>
   (truthy (field (body_of req) ''logId'') \<longrightarrow>
      (snd (run s (put_logs_session_end now req)) = []
         \<longleftrightarrow> field (body_of req) ''durationSeconds'' = JUndefined))"
proof (intro conjI impI)
  assume a: "f \<in> set (required op) \<and> f \<noteq> ''durationSeconds'' \<and> \<not> truthy (input op req f)"
  then have here: "handler op now req = Respond (rejection op)"
    using falsy_rejected [of f op req now] by blast
  from a have "\<not> truthy (input op (without f req) f)"
    by (simp add: input_without_same)
  with a have there: "handler op now (without f req) = Respond (rejection op)"
    using falsy_rejected [of f op "without f req" now] by blast
  show "status (fst (run s (handler op now req))) = 400"
    by (simp add: here status_rejection)
  show "snd (run s (handler op now req)) = []"
    by (simp add: here)
  show "run s (handler op now req) = run s (handler op now (without f req))"
    by (simp add: here there)
next
  assume "truthy (field (body_of req) ''logId'')"
  then show "snd (run s (put_logs_session_end now req)) = []
         \<longleftrightarrow> field (body_of req) ''durationSeconds'' = JUndefined"
    by (simp add: put_logs_session_end_def Let_def)
qed

theorem falsy_required_field_witness:
  "run (replying JNull)
     (handler EndSession noon
        (body_request [(''logId'', JNum (Finite 0)), (''durationSeconds'', JNum (Finite 5))])) =
   run (replying JNull)
     (handler EndSession noon
        (without ''logId''
           (body_request [(''logId'', JNum (Finite 0)), (''durationSeconds'', JNum (Finite 5))]))) \<and>
   snd (run (replying JNull)
     (handler EndSession noon
        (body_request [(''logId'', JNum (Finite 0)), (''durationSeconds'', JNum (Finite 5))]))) = [] \<and>
   snd (run (replying JNull)
     (put_logs_session_end noon
        (body_request [(''logId'', JNum (Finite 42)), (''durationSeconds'', JNull)]))) \<noteq> []"
proof -
  let ?zero = "body_request [(''logId'', JNum (Finite 0)), (''durationSeconds'', JNum (Finite 5))]"
  let ?null = "body_request [(''logId'', JNum (Finite 42)), (''durationSeconds'', JNull)]"
  have falsy: "''logId'' \<in> set (required EndSession) \<and> ''logId'' \<noteq> ''durationSeconds'' \<and>
      \<not> truthy (input EndSession ?zero ''logId'')"
    by (simp add: body_request_def field_def)
  have passes: "truthy (field (body_of ?null) ''logId'') \<and>
      field (body_of ?null) ''durationSeconds'' \<noteq> JUndefined"
    by (simp add: body_request_def field_def)
  from falsy_required_field [where f = "''logId''" and op = EndSession and req = ?zero
      and s = "replying JNull" and now = noon] falsy
  have first: "run (replying JNull) (handler EndSession noon ?zero) =
      run (replying JNull) (handler EndSession noon (without ''logId'' ?zero)) \<and>
      snd (run (replying JNull) (handler EndSession noon ?zero)) = []"
    by blast
  from falsy_required_field [where f = "''logId''" and op = EndSession and req = ?null
      and s = "replying JNull" and now = noon] passes
  have "snd (run (replying JNull) (put_logs_session_end noon ?null)) \<noteq> []"
    by blast
  with first show ?thesis by blast
qed

section \<open>Store errors\<close>

lemma sublist_after_prefix: "sublist z (x @ y @ z)"
  by (metis append_assoc sublist_append_leftI)

text \<open>
  C5. For every operation, when the handler makes a store call and the store reports an
  error on it, the response is 500, its body is \<^verbatim>\<open>{ error: description + ': ' + message }\<close>
  with the operation's Spanish description and the store's own message (which is
  therefore a substring of the error text), and that call is the only store call made.
\<close>

theorem store_error_500:
  assumes "c \<in> set (snd (run s (handler op now req)))" and "error (s c) = Some e"
  shows "run s (handler op now req) =
           (\<lparr>status = 500,
             body = JObj [(''error'', JStr (description op @ '': '' @ message e))]\<rparr>, [c])
         \<and> sublist (message e) (description op @ '': '' @ message e)"
proof
  show "sublist (message e) (description op @ '': '' @ message e)"
    by (rule sublist_after_prefix)
  from assms show "run s (handler op now req) =
           (\<lparr>status = 500,
             body = JObj [(''error'', JStr (description op @ '': '' @ message e))]\<rparr>, [c])"
    by (cases op) (simp_all add: handler_defs response_defs Let_def split: if_splits)
qed

theorem store_error_500_witness:
  "run (failing ''connection refused'')
     (handler ListHabits noon (param_request [(''userId'', ''u1'')])) =
   (\<lparr>status = 500,
     body = JObj [(''error'',
       JStr (''Error al obtener h'' @ a_acute @ ''bitos: connection refused''))]\<rparr>,
    [Select ''habit_types'' ''*''
       [Eq ''user_id'' (JStr ''u1''), Eq ''is_active'' (JBool True)]
       (Some (''created_at'', True))])"
proof -
  let ?c = "Select ''habit_types'' ''*''
       [Eq ''user_id'' (JStr ''u1''), Eq ''is_active'' (JBool True)]
       (Some (''created_at'', True))"
  let ?e = "\<lparr>message = ''connection refused''\<rparr>"
  have called: "?c \<in> set (snd (run (failing ''connection refused'')
      (handler ListHabits noon (param_request [(''userId'', ''u1'')]))))"
    by (simp add: get_habits_def param_request_def param_def)
  have reported: "error (failing ''connection refused'' ?c) = Some ?e"
    by (simp add: failing_def)
  from store_error_500 [OF called reported] show ?thesis
    by simp
qed

section \<open>Requests that do not reach the validation\<close>

lemma match_habits_userId:
  assumes "match_path ''/habits/:userId'' path = Some ps"
  shows "\<exists>u. ps = [(''userId'', u)] \<and> u \<noteq> []"
proof -
  have pat: "segments ''/habits/:userId'' = Some [''habits'', '':userId'']"
    by (simp add: segments_def)
  from assms obtain ss where ss: "match_segs [''habits'', '':userId''] ss = Some ps"
    by (auto simp: match_path_def pat split: option.splits)
  show ?thesis
  proof (cases ss)
    case Nil
    with ss show ?thesis by simp
  next
    case outer: (Cons a rest)
    show ?thesis
    proof (cases rest)
      case Nil
      with outer ss show ?thesis by (simp split: if_splits)
    next
      case (Cons u rest2)
      with outer ss show ?thesis by (cases rest2) (auto split: if_splits)
    qed
  qed
qed

lemma tokens_nonempty:
  assumes "tokens s = Some ts" and "s \<noteq> []"
  shows "ts \<noteq> []"
  using assms
  by (cases s rule: tokens.cases) (auto split: if_splits option.splits)

lemma utf8_nonempty:
  assumes "utf8 [] ts = Some out" and "ts \<noteq> []"
  shows "out \<noteq> []"
proof (cases ts)
  case Nil
  with assms show ?thesis by simp
next
  case (Cons t rest)
  with assms show ?thesis
    by (cases t) (auto split: if_splits option.splits)
qed

lemma decodeURIComponent_nonempty:
  assumes "decodeURIComponent s = Some u" and "s \<noteq> []"
  shows "u \<noteq> []"
proof -
  from assms(1) obtain ts where ts: "tokens s = Some ts" and out: "utf8 [] ts = Some u"
    by (auto simp: decodeURIComponent_def split: option.splits)
  from ts assms(2) have "ts \<noteq> []" by (rule tokens_nonempty)
  with out show ?thesis by (rule utf8_nonempty)
qed

text \<open>Whatever path reaches the list handler gives it a truthy \<^verbatim>\<open>userId\<close>.\<close>

lemma routed_userId_truthy:
  assumes "match_path ''/habits/:userId'' path = Some captured"
    and "decode_params captured = Some ps"
  shows "truthy (param ps ''userId'')"
proof -
  from assms(1) obtain u where captured: "captured = [(''userId'', u)]" and "u \<noteq> []"
    using match_habits_userId by blast
  from assms(2) captured obtain v where decoded: "decodeURIComponent u = Some v"
    and ps: "ps = [(''userId'', v)]"
    by (auto split: option.splits)
  from decoded \<open>u \<noteq> []\<close> have "v \<noteq> []" by (rule decodeURIComponent_nonempty)
  with ps show ?thesis by (simp add: param_def)
qed

lemmas routing_defs = routes_index_js_def routes_part_000_def match_path_def segments_def
  lower_def on_params_def on_body_def

lemma no_route_for_habits_slash:
  "dispatch routes_index_js GET ''/habits/'' b now = ByExpress 404"
  "dispatch routes_part_000 GET ''/habits/'' b now = ByExpress 404"
  by (simp_all add: routing_defs)

lemma no_route_for_habits:
  "dispatch routes_index_js GET ''/habits'' b now = ByExpress 404"
  "dispatch routes_part_000 GET ''/habits'' b now = ByExpress 404"
  by (simp_all add: routing_defs)

lemma body_handlers_throw:
  "dispatch routes_part_000 POST ''/habits'' JUndefined now =
     Thrown (destructure_error ''userId'' ''undefined'')"
  "dispatch routes_part_000 POST ''/logs/event'' JUndefined now =
     Thrown (destructure_error ''userId'' ''undefined'')"
  "dispatch routes_part_000 POST ''/logs/session/start'' JUndefined now =
     Thrown (destructure_error ''userId'' ''undefined'')"
  "dispatch routes_part_000 PUT ''/logs/session/end'' JUndefined now =
     Thrown (destructure_error ''logId'' ''undefined'')"
  by (simp_all add: routing_defs)

text \<open>
  C4. The claim is what the list handler sets out to do: its validation branch answers
  400 with the body \<^verbatim>\<open>{ error: "Falta el parametro userId en la URL." }\<close> (with the
  source's accent) whenever it is run with a falsy \<^verbatim>\<open>userId\<close>. The code does not get
  there: \<^verbatim>\<open>GET /habits/\<close> matches no route of either listing, because the \<^verbatim>\<open>:userId\<close>
  segment of \<^verbatim>\<open>/habits/:userId\<close> takes at least one character, so Express answers 404
  and the list handler is not run; and no path that does reach the handler gives it a
  falsy \<^verbatim>\<open>userId\<close>, so the branch is never taken.
\<close>

theorem get_habits_slash_not_validated:
  "dispatch routes_index_js GET ''/habits/'' b now = ByExpress 404 \<and>
   dispatch routes_part_000 GET ''/habits/'' b now = ByExpress 404 \<and>
   (\<not> truthy (param (params req) ''userId'') \<longrightarrow>
      get_habits req =
        Respond \<lparr>status = 400,
                 body = JObj [(''error'',
                   JStr (''Falta el par'' @ a_acute @ ''metro userId en la URL.''))]\<rparr>) \<and>
   (match_path ''/habits/:userId'' path = Some captured \<and> decode_params captured = Some ps \<longrightarrow>
      truthy (param ps ''userId''))"
proof (intro conjI impI)
  show "dispatch routes_index_js GET ''/habits/'' b now = ByExpress 404"
    by (rule no_route_for_habits_slash)
  show "dispatch routes_part_000 GET ''/habits/'' b now = ByExpress 404"
    by (rule no_route_for_habits_slash)
next
  assume "\<not> truthy (param (params req) ''userId'')"
  then show "get_habits req =
        Respond \<lparr>status = 400,
                 body = JObj [(''error'',
                   JStr (''Falta el par'' @ a_acute @ ''metro userId en la URL.''))]\<rparr>"
    by (simp add: get_habits_def response_defs)
next
  assume "match_path ''/habits/:userId'' path = Some captured \<and> decode_params captured = Some ps"
  then show "truthy (param ps ''userId'')"
    using routed_userId_truthy by blast
qed

theorem get_habits_slash_not_validated_witness:
  "dispatch routes_index_js GET ''/habits/'' JUndefined noon = ByExpress 404 \<and>
   dispatch routes_part_000 GET ''/habits/'' JUndefined noon = ByExpress 404 \<and>
   get_habits (param_request []) =
     Respond \<lparr>status = 400,
              body = JObj [(''error'',
                JStr (''Falta el par'' @ a_acute @ ''metro userId en la URL.''))]\<rparr> \<and>
   truthy (param [(''userId'', ''u1'')] ''userId'')"
proof -
  have absent: "\<not> truthy (param (params (param_request [])) ''userId'')"
    by (simp add: param_request_def param_def)
  have matched: "match_path ''/habits/:userId'' ''/habits/u1'' = Some [(''userId'', ''u1'')]"
    by (simp add: match_path_def segments_def lower_def)
  have decoded: "decode_params [(''userId'', ''u1'')] = Some [(''userId'', ''u1'')]"
    by (simp add: decodeURIComponent_def)
  from get_habits_slash_not_validated [where b = JUndefined and now = noon
      and req = "param_request []" and path = "''/habits/u1''"
      and captured = "[(''userId'', ''u1'')]" and ps = "[(''userId'', ''u1'')]"]
    absent matched decoded
  show ?thesis by simp
qed

text \<open>
  C2. The claim is what every handler's validation branch does when it runs: 400, a
  message that names the field, no store call. The code falls short of it for the
  requests that miss a field and never reach that branch. The list operation without a
  \<^verbatim>\<open>userId\<close>, \<^verbatim>\<open>GET /habits\<close>, matches no route of either listing and is answered 404 by
  Express (as \<^verbatim>\<open>GET /habits/\<close> is). A body operation whose \<^verbatim>\<open>req.body\<close> is \<^verbatim>\<open>undefined\<close>
  throws a TypeError at its first statement, before the validation and outside the
  \<^verbatim>\<open>try\<close> block, so it is not answered 400 either.
\<close>

theorem missing_field_not_validated:
  "dispatch routes_index_js GET ''/habits'' b now = ByExpress 404 \<and>
   dispatch routes_part_000 GET ''/habits'' b now = ByExpress 404 \<and>
   dispatch routes_part_000 POST ''/habits'' JUndefined now =
     Thrown (destructure_error ''userId'' ''undefined'') \<and>
   dispatch routes_part_000 POST ''/logs/event'' JUndefined now =
     Thrown (destructure_error ''userId'' ''undefined'') \<and>
   dispatch routes_part_000 POST ''/logs/session/start'' JUndefined now =
     Thrown (destructure_error ''userId'' ''undefined'') \<and>
   dispatch routes_part_000 PUT ''/logs/session/end'' JUndefined now =
     Thrown (destructure_error ''logId'' ''undefined'')"
  by (intro conjI no_route_for_habits body_handlers_throw)

theorem missing_field_not_validated_witness:
  "dispatch routes_index_js GET ''/habits'' (JObj []) noon = ByExpress 404 \<and>
   dispatch routes_part_000 GET ''/habits'' (JObj []) noon = ByExpress 404 \<and>
   dispatch routes_part_000 POST ''/logs/event'' JUndefined noon =
     Thrown (destructure_error ''userId'' ''undefined'')"
  using missing_field_not_validated [where b = "JObj []" and now = noon]
  by simp

section \<open>Rows and the row store\<close>

lemma field_set_field: "field (set_field k v r) k' = (if k' = k then v else field r k')"
  by (induction r) (auto simp: field_def)

lemma field_assign_other: "k \<notin> fst ` set p \<Longrightarrow> field (assign r p) k = field r k"
  unfolding assign_def
  by (induction p arbitrary: r) (auto simp: field_set_field)

lemma field_assign_listed:
  "distinct (map fst p) \<Longrightarrow> (k, v) \<in> set p \<Longrightarrow> field (assign r p) k = v"
proof (induction p arbitrary: r)
  case Nil
  then show ?case by simp
next
  case (Cons kv p)
  show ?case
  proof (cases "kv = (k, v)")
    case True
    with Cons.prems have "k \<notin> fst ` set p" by auto
    then have "field (assign (set_field k v r) p) k = field (set_field k v r) k"
      by (rule field_assign_other)
    with True show ?thesis by (simp add: assign_def field_set_field)
  next
    case False
    with Cons.prems have "distinct (map fst p)" and "(k, v) \<in> set p" by auto
    then have "field (assign (set_field (fst kv) (snd kv) r) p) k = v"
      by (rule Cons.IH)
    then show ?thesis by (simp add: assign_def)
  qed
qed

lemma keys_sent: "fst ` set (sent p) \<subseteq> fst ` set p"
  by (auto simp: sent_def)

lemma distinct_sent: "distinct (map fst p) \<Longrightarrow> distinct (map fst (sent p))"
  by (simp add: sent_def distinct_map_filter)

lemma field_new_row_sent:
  assumes "distinct (map fst p)" and "(k, v) \<in> set p" and "v \<noteq> JUndefined"
  shows "field (assign r (sent p)) k = v"
proof -
  from assms have "(k, v) \<in> set (sent p)" by (simp add: sent_def)
  with distinct_sent [OF assms(1)] show ?thesis by (rule field_assign_listed)
qed

lemma field_new_row_unsent: "k \<notin> fst ` set p \<Longrightarrow> field (assign r (sent p)) k = field r k"
  using keys_sent [of p] by (intro field_assign_other) blast

lemma truthy_defined: "truthy v \<Longrightarrow> v \<noteq> JUndefined"
  by auto

lemma project_all [simp]: "project ''*'' r = r"
  by (simp add: project_def)

lemma matches_list_filters:
  "matches [Eq ''user_id'' v, Eq ''is_active'' w] =
     (\<lambda>r. field r ''user_id'' = v \<and> field r ''is_active'' = w)"
  by (rule ext) (simp add: matches_def)

lemma get_habits_valid:
  assumes "param (params req) ''userId'' = JStr u" and "u \<noteq> []"
  shows "get_habits req =
     Call (Select ''habit_types'' ''*'' [Eq ''user_id'' (JStr u), Eq ''is_active'' (JBool True)]
             (Some (''created_at'', True)))
          (\<lambda>r. case error r of
                  Some err \<Rightarrow>
                    json 500 (error_body (''Error al obtener h'' @ a_acute @ ''bitos: '' @ message err))
                | None \<Rightarrow> json 200 (data r))"
  using assms by (simp add: get_habits_def)

lemma get_habits_on_store:
  assumes "param (params req) ''userId'' = JStr u" and "u \<noteq> []"
  shows "run_db sc (get_habits req) d =
     (\<lparr>status = 200,
       body = JArr (map JObj
         (sort_key (\<lambda>r. rank sc (field r ''created_at''))
            (filter (\<lambda>r. field r ''user_id'' = JStr u \<and> field r ''is_active'' = JBool True)
               (d ''habit_types''))))\<rparr>, d)"
  by (simp add: get_habits_valid [OF assms] matches_list_filters ok_def json_def)

lemma post_logs_session_start_valid:
  assumes "truthy (field (body_of req) ''userId'')"
    and "truthy (field (body_of req) ''habitTypeId'')"
  shows "post_logs_session_start now req =
     Call (Insert ''habit_logs''
             [(''user_id'', field (body_of req) ''userId''),
              (''habit_type_id'', field (body_of req) ''habitTypeId''),
              (''fecha_inicio'', JStr now)]
             (Some ''id''))
          (\<lambda>r. case error r of
                  Some err \<Rightarrow>
                    json 500 (error_body (''Error al iniciar sesi'' @ o_acute @ ''n: '' @ message err))
                | None \<Rightarrow>
                    (case get_prop (data r) ''id'' of
                       Inl msg \<Rightarrow>
                         json 500 (error_body (''Error al iniciar sesi'' @ o_acute @ ''n: '' @ msg))
                     | Inr v \<Rightarrow> json 201 (JObj [(''logId'', v)])))"
  using assms by (simp add: post_logs_session_start_def Let_def)

section \<open>Listing habit types\<close>

text \<open>
  C6. For every non-empty \<^verbatim>\<open>userId\<close> the list handler makes exactly one store call, the
  select on \<^verbatim>\<open>habit_types\<close> with the filters \<^verbatim>\<open>user_id = userId\<close> and \<^verbatim>\<open>is_active = true\<close>
  ordered by \<^verbatim>\<open>created_at\<close> ascending, and when the store reports no error it answers 200
  with the store's data as the body. Against the row store the body is an array of
  exactly the rows of \<^verbatim>\<open>habit_types\<close> that belong to the user and are active, sorted by
  \<^verbatim>\<open>created_at\<close>, and the store is left as it was.
\<close>

theorem list_habits_valid:
  assumes "param (params req) ''userId'' = JStr u" and "u \<noteq> []"
  shows "let c = Select ''habit_types'' ''*''
                   [Eq ''user_id'' (JStr u), Eq ''is_active'' (JBool True)]
                   (Some (''created_at'', True))
         in snd (run s (get_habits req)) = [c] \<and>
            (error (s c) = None \<longrightarrow>
               fst (run s (get_habits req)) = \<lparr>status = 200, body = data (s c)\<rparr>) \<and>
            (\<exists>rows. run_db sc (get_habits req) d =
                      (\<lparr>status = 200, body = JArr (map JObj rows)\<rparr>, d) \<and>
                    mset rows =
                      mset (filter (\<lambda>r. field r ''user_id'' = JStr u \<and>
                                        field r ''is_active'' = JBool True)
                              (d ''habit_types'')) \<and>
                    sorted (map (\<lambda>r. rank sc (field r ''created_at'')) rows))"
proof -
  let ?rows = "sort_key (\<lambda>r. rank sc (field r ''created_at''))
            (filter (\<lambda>r. field r ''user_id'' = JStr u \<and> field r ''is_active'' = JBool True)
               (d ''habit_types''))"
  have "run_db sc (get_habits req) d = (\<lparr>status = 200, body = JArr (map JObj ?rows)\<rparr>, d)"
    using assms by (rule get_habits_on_store)
  moreover have "mset ?rows = mset (filter (\<lambda>r. field r ''user_id'' = JStr u \<and>
                                        field r ''is_active'' = JBool True)
                              (d ''habit_types''))"
    by simp
  moreover have "sorted (map (\<lambda>r. rank sc (field r ''created_at'')) ?rows)"
    by (rule sorted_sort_key)
  ultimately have store: "\<exists>rows. run_db sc (get_habits req) d =
                      (\<lparr>status = 200, body = JArr (map JObj rows)\<rparr>, d) \<and>
                    mset rows =
                      mset (filter (\<lambda>r. field r ''user_id'' = JStr u \<and>
                                        field r ''is_active'' = JBool True)
                              (d ''habit_types'')) \<and>
                    sorted (map (\<lambda>r. rank sc (field r ''created_at'')) rows)"
    by blast
  show ?thesis
    unfolding Let_def
    using store by (simp add: get_habits_valid [OF assms] json_def split: option.splits)
qed


theorem list_habits_valid_witness:
  "\<exists>rows. run_db serial_schema (get_habits (param_request [(''userId'', ''u1'')])) three_habits =
            (\<lparr>status = 200, body = JArr (map JObj rows)\<rparr>, three_habits) \<and>
          mset rows =
            mset (filter (\<lambda>r. field r ''user_id'' = JStr ''u1'' \<and>
                              field r ''is_active'' = JBool True)
                    (three_habits ''habit_types'')) \<and>
          sorted (map (\<lambda>r. rank serial_schema (field r ''created_at'')) rows)"
proof -
  have given: "param (params (param_request [(''userId'', ''u1'')])) ''userId'' = JStr ''u1''"
    by (simp add: param_request_def param_def)
  have nonempty: "''u1'' \<noteq> []"
    by simp
  from list_habits_valid [OF given nonempty, where sc = serial_schema and d = three_habits]
  show ?thesis
    unfolding Let_def by blast
qed

section \<open>Starting a session\<close>

text \<open>
  C7. For every start-session request whose \<^verbatim>\<open>userId\<close> and \<^verbatim>\<open>habitTypeId\<close> are both
  truthy, the handler makes exactly one store call, the insert into \<^verbatim>\<open>habit_logs\<close> of a row
  with \<^verbatim>\<open>user_id\<close>, \<^verbatim>\<open>habit_type_id\<close> and \<^verbatim>\<open>fecha_inicio\<close> (the server time) and no other
  column, returning the \<^verbatim>\<open>id\<close>; when the store reports no error and returns the row, the
  response is 201 with \<^verbatim>\<open>{ logId }\<close>, the row's id. Against the row store exactly one row
  is appended to \<^verbatim>\<open>habit_logs\<close>; it carries the three values, its \<^verbatim>\<open>fecha_fin\<close> and
  \<^verbatim>\<open>duracion_segundos\<close> are whatever the store gives a new row, and \<^verbatim>\<open>logId\<close> is its id.
\<close>

theorem start_session_valid:
  assumes "truthy (field (body_of req) ''userId'')"
    and "truthy (field (body_of req) ''habitTypeId'')"
  shows "let c = Insert ''habit_logs''
                   [(''user_id'', field (body_of req) ''userId''),
                    (''habit_type_id'', field (body_of req) ''habitTypeId''),
                    (''fecha_inicio'', JStr now)]
                   (Some ''id'')
         in snd (run s (post_logs_session_start now req)) = [c] \<and>
            (error (s c) = None \<and> data (s c) = JObj row \<longrightarrow>
               fst (run s (post_logs_session_start now req)) =
                 \<lparr>status = 201, body = JObj [(''logId'', field row ''id'')]\<rparr>) \<and>
            (\<exists>r. run_db sc (post_logs_session_start now req) d =
                    (\<lparr>status = 201, body = JObj [(''logId'', field r ''id'')]\<rparr>,
                     d(''habit_logs'' := d ''habit_logs'' @ [r])) \<and>
                  field r ''user_id'' = field (body_of req) ''userId'' \<and>
                  field r ''habit_type_id'' = field (body_of req) ''habitTypeId'' \<and>
                  field r ''fecha_inicio'' = JStr now \<and>
                  field r ''fecha_fin'' =
                    field (generated sc ''habit_logs'' (d ''habit_logs'')) ''fecha_fin'' \<and>
                  field r ''duracion_segundos'' =
                    field (generated sc ''habit_logs'' (d ''habit_logs'')) ''duracion_segundos'')"
proof -
  let ?p = "[(''user_id'', field (body_of req) ''userId''),
            (''habit_type_id'', field (body_of req) ''habitTypeId''),
            (''fecha_inicio'', JStr now)]"
  let ?g = "generated sc ''habit_logs'' (d ''habit_logs'')"
  let ?r = "assign ?g (sent ?p)"
  note valid = post_logs_session_start_valid [OF assms]
  have keys: "distinct (map fst ?p)" by simp
  have "field (body_of req) ''userId'' \<noteq> JUndefined"
    and "field (body_of req) ''habitTypeId'' \<noteq> JUndefined"
    using assms by (auto dest: truthy_defined)
  then have sent_fields: "field ?r ''user_id'' = field (body_of req) ''userId''"
    "field ?r ''habit_type_id'' = field (body_of req) ''habitTypeId''"
    "field ?r ''fecha_inicio'' = JStr now"
    by (intro field_new_row_sent [OF keys]; simp)+
  have kept: "field ?r ''fecha_fin'' = field ?g ''fecha_fin''"
    "field ?r ''duracion_segundos'' = field ?g ''duracion_segundos''"
    by (intro field_new_row_unsent; simp)+
  have "run_db sc (post_logs_session_start now req) d =
      (\<lparr>status = 201, body = JObj [(''logId'', field ?r ''id'')]\<rparr>,
       d(''habit_logs'' := d ''habit_logs'' @ [?r]))"
    by (simp add: valid Let_def ok_def json_def project_def field_def [of "[_]"])
  with sent_fields kept have store: "\<exists>r. run_db sc (post_logs_session_start now req) d =
                    (\<lparr>status = 201, body = JObj [(''logId'', field r ''id'')]\<rparr>,
                     d(''habit_logs'' := d ''habit_logs'' @ [r])) \<and>
                  field r ''user_id'' = field (body_of req) ''userId'' \<and>
                  field r ''habit_type_id'' = field (body_of req) ''habitTypeId'' \<and>
                  field r ''fecha_inicio'' = JStr now \<and>
                  field r ''fecha_fin'' = field ?g ''fecha_fin'' \<and>
                  field r ''duracion_segundos'' = field ?g ''duracion_segundos''"
    by blast
  show ?thesis
    unfolding Let_def
    using store by (simp add: valid json_def)
qed

theorem start_session_valid_witness:
  "snd (run (replying (JObj [(''id'', JNum (Finite 42))]))
          (post_logs_session_start noon start_request)) =
     [Insert ''habit_logs''
        [(''user_id'', JStr ''u1''), (''habit_type_id'', JStr ''h1''),
         (''fecha_inicio'', JStr noon)]
        (Some ''id'')] \<and>
   fst (run (replying (JObj [(''id'', JNum (Finite 42))]))
          (post_logs_session_start noon start_request)) =
     \<lparr>status = 201, body = JObj [(''logId'', JNum (Finite 42))]\<rparr>"
proof -
  have user: "truthy (field (body_of start_request) ''userId'')"
    by (simp add: start_request_def body_request_def field_def)
  have habit: "truthy (field (body_of start_request) ''habitTypeId'')"
    by (simp add: start_request_def body_request_def field_def)
  from start_session_valid [OF user habit,
      where s = "replying (JObj [(''id'', JNum (Finite 42))])" and now = noon
        and row = "[(''id'', JNum (Finite 42))]"]
  show ?thesis
    by (simp add: Let_def start_request_def body_request_def field_def replying_def ok_def)
qed

section \<open>The life of a habit log\<close>

lemma inserted_habit_log:
  assumes "Insert ''habit_logs'' p ret \<in> set (snd (run s (handler op now req)))"
  shows "map fst p = [''user_id'', ''habit_type_id'', ''fecha_inicio''] \<and>
         field p ''fecha_inicio'' = JStr now"
  using assms
  by (cases op) (auto simp: handler_defs Let_def field_def split: if_splits)

lemma end_fields_writer:
  assumes "c \<in> set (snd (run s (handler op now req)))"
    and "''fecha_fin'' \<in> set (written c) \<or> ''duracion_segundos'' \<in> set (written c)"
  shows "op = EndSession \<and>
         c = Update ''habit_logs''
               [(''fecha_fin'', JStr now),
                (''duracion_segundos'', field (body_of req) ''durationSeconds''),
                (''notas'', field (body_of req) ''notas'')]
               [Eq ''id'' (field (body_of req) ''logId'')]"
  using assms
  by (cases op) (auto simp: handler_defs Let_def split: if_splits)

lemma never_writes_id:
  assumes "c \<in> set (snd (run s (handler op now req)))"
  shows "''id'' \<notin> set (written c)"
  using assms
  by (cases op) (auto simp: handler_defs Let_def split: if_splits)

lemma store_exec_keeps:
  assumes "''id'' \<notin> set (written c)" and "i < length (d t)"
  shows "length (d t) \<le> length (snd (store_exec sc c d) t) \<and>
         field (snd (store_exec sc c d) t ! i) ''id'' = field (d t ! i) ''id''"
proof (cases c)
  case (Select t' cols fs ord)
  then show ?thesis by simp
next
  case (Insert t' payload returning)
  with assms show ?thesis by (auto simp: Let_def nth_append)
next
  case (Update t' patch fs)
  with assms have "''id'' \<notin> fst ` set patch" by simp
  then have "field (assign r (sent patch)) ''id'' = field r ''id''" for r
    by (rule field_new_row_unsent)
  with Update assms show ?thesis by auto
qed

lemma run_db_calls:
  "snd (run_db sc a d) = (case snd (run s a) of [] \<Rightarrow> d | c # cs \<Rightarrow> snd (store_exec sc c d))"
  by (cases a) simp_all

lemma rows_kept:
  assumes "i < length (d t)"
  shows "length (d t) \<le> length (snd (run_db sc (handler op now req) d) t) \<and>
         field (snd (run_db sc (handler op now req) d) t ! i) ''id'' = field (d t ! i) ''id''"
proof (cases "snd (run (replying JNull) (handler op now req))")
  case Nil
  then show ?thesis by (simp add: run_db_calls [where s = "replying JNull"])
next
  case (Cons c cs)
  then have "c \<in> set (snd (run (replying JNull) (handler op now req)))" by simp
  then have "''id'' \<notin> set (written c)" by (rule never_writes_id)
  from store_exec_keeps [where d = d and t = t and i = i and sc = sc, OF this assms] Cons
  show ?thesis
    by (simp add: run_db_calls [where s = "replying JNull"])
qed

lemma end_session_on_store:
  assumes "i < length (d ''habit_logs'')"
  shows "(t \<noteq> ''habit_logs'' \<longrightarrow> snd (run_db sc (put_logs_session_end now req) d) t = d t) \<and>
     length (snd (run_db sc (put_logs_session_end now req) d) ''habit_logs'') =
       length (d ''habit_logs'') \<and>
     (field (d ''habit_logs'' ! i) ''id'' \<noteq> field (body_of req) ''logId'' \<longrightarrow>
        snd (run_db sc (put_logs_session_end now req) d) ''habit_logs'' ! i =
          d ''habit_logs'' ! i) \<and>
     (k \<notin> {''fecha_fin'', ''duracion_segundos'', ''notas''} \<longrightarrow>
        field (snd (run_db sc (put_logs_session_end now req) d) ''habit_logs'' ! i) k =
          field (d ''habit_logs'' ! i) k)"
proof (cases "\<not> truthy (field (body_of req) ''logId'') \<or>
    field (body_of req) ''durationSeconds'' = JUndefined")
  case True
  then show ?thesis by (auto simp: put_logs_session_end_def Let_def)
next
  case False
  let ?patch = "[(''fecha_fin'', JStr now),
                 (''duracion_segundos'', field (body_of req) ''durationSeconds''),
                 (''notas'', field (body_of req) ''notas'')]"
  have untouched: "k \<notin> {''fecha_fin'', ''duracion_segundos'', ''notas''} \<longrightarrow>
      field (assign r (sent ?patch)) k = field r k" for r
    by (intro impI field_new_row_unsent) simp
  from False assms untouched show ?thesis
    by (simp add: put_logs_session_end_def Let_def matches_def)
qed

text \<open>
  C8. Whatever the operation and the request:
  \<^item> an insert into \<^verbatim>\<open>habit_logs\<close> writes \<^verbatim>\<open>user_id\<close>, \<^verbatim>\<open>habit_type_id\<close> and
    \<^verbatim>\<open>fecha_inicio\<close> (the server time) and nothing else, so neither end field;
  \<^item> a store call that writes \<^verbatim>\<open>fecha_fin\<close> or \<^verbatim>\<open>duracion_segundos\<close> is made by end-session
    only, and is its update of \<^verbatim>\<open>fecha_fin\<close>, \<^verbatim>\<open>duracion_segundos\<close> and \<^verbatim>\<open>notas\<close> filtered
    by \<^verbatim>\<open>id = logId\<close>;
  \<^item> against the row store, end-session leaves every other table alone, keeps the number
    of rows of \<^verbatim>\<open>habit_logs\<close>, leaves every row whose id is not \<^verbatim>\<open>logId\<close> as it was, and
    changes no field of any row other than those three;
  \<^item> against the row store, no operation removes a row: every row of every table is
    still in its place, under its id, afterwards.
\<close>

theorem habit_log_lifecycle:
  "(Insert ''habit_logs'' p ret \<in> set (snd (run s (handler op now req))) \<longrightarrow>
      map fst p = [''user_id'', ''habit_type_id'', ''fecha_inicio''] \<and>
      field p ''fecha_inicio'' = JStr now) \<and>
   (c \<in> set (snd (run s (handler op now req))) \<and>
    (''fecha_fin'' \<in> set (written c) \<or> ''duracion_segundos'' \<in> set (written c)) \<longrightarrow>
      op = EndSession \<and>
      c = Update ''habit_logs''
            [(''fecha_fin'', JStr now),
             (''duracion_segundos'', field (body_of req) ''durationSeconds''),
             (''notas'', field (body_of req) ''notas'')]
            [Eq ''id'' (field (body_of req) ''logId'')]) \<and>
   (i < length (d ''habit_logs'') \<longrightarrow>
      (t \<noteq> ''habit_logs'' \<longrightarrow> snd (run_db sc (put_logs_session_end now req) d) t = d t) \<and>
      length (snd (run_db sc (put_logs_session_end now req) d) ''habit_logs'') =
        length (d ''habit_logs'') \<and>
      (field (d ''habit_logs'' ! i) ''id'' \<noteq> field (body_of req) ''logId'' \<longrightarrow>
         snd (run_db sc (put_logs_session_end now req) d) ''habit_logs'' ! i =
           d ''habit_logs'' ! i) \<and>
      (k \<notin> {''fecha_fin'', ''duracion_segundos'', ''notas''} \<longrightarrow>
         field (snd (run_db sc (put_logs_session_end now req) d) ''habit_logs'' ! i) k =
           field (d ''habit_logs'' ! i) k)) \<and>
   (j < length (d t) \<longrightarrow>
      length (d t) \<le> length (snd (run_db sc (handler op now req) d) t) \<and>
      field (snd (run_db sc (handler op now req) d) t ! j) ''id'' = field (d t ! j) ''id'')"
proof (intro conjI)
  show "Insert ''habit_logs'' p ret \<in> set (snd (run s (handler op now req))) \<longrightarrow>
      map fst p = [''user_id'', ''habit_type_id'', ''fecha_inicio''] \<and>
      field p ''fecha_inicio'' = JStr now"
    using inserted_habit_log by blast
  show "c \<in> set (snd (run s (handler op now req))) \<and>
    (''fecha_fin'' \<in> set (written c) \<or> ''duracion_segundos'' \<in> set (written c)) \<longrightarrow>
      op = EndSession \<and>
      c = Update ''habit_logs''
            [(''fecha_fin'', JStr now),
             (''duracion_segundos'', field (body_of req) ''durationSeconds''),
             (''notas'', field (body_of req) ''notas'')]
            [Eq ''id'' (field (body_of req) ''logId'')]"
    using end_fields_writer [of c s op now req] by blast
  show "i < length (d ''habit_logs'') \<longrightarrow>
      (t \<noteq> ''habit_logs'' \<longrightarrow> snd (run_db sc (put_logs_session_end now req) d) t = d t) \<and>
      length (snd (run_db sc (put_logs_session_end now req) d) ''habit_logs'') =
        length (d ''habit_logs'') \<and>
      (field (d ''habit_logs'' ! i) ''id'' \<noteq> field (body_of req) ''logId'' \<longrightarrow>
         snd (run_db sc (put_logs_session_end now req) d) ''habit_logs'' ! i =
           d ''habit_logs'' ! i) \<and>
      (k \<notin> {''fecha_fin'', ''duracion_segundos'', ''notas''} \<longrightarrow>
         field (snd (run_db sc (put_logs_session_end now req) d) ''habit_logs'' ! i) k =
           field (d ''habit_logs'' ! i) k)"
    using end_session_on_store [of i d t sc now req k] by blast
  show "j < length (d t) \<longrightarrow>
      length (d t) \<le> length (snd (run_db sc (handler op now req) d) t) \<and>
      field (snd (run_db sc (handler op now req) d) t ! j) ''id'' = field (d t ! j) ''id''"
    using rows_kept [of j d t sc op now req] by blast
qed

theorem habit_log_lifecycle_witness:
  "field [(''user_id'', JStr ''u1''), (''habit_type_id'', JStr ''h1''),
          (''fecha_inicio'', JStr noon)] ''fecha_inicio'' = JStr noon \<and>
   snd (run_db serial_schema (put_logs_session_end noon end_request) two_sessions)
      ''habit_logs'' ! 1 = two_sessions ''habit_logs'' ! 1 \<and>
   field (snd (run_db serial_schema (put_logs_session_end noon end_request) two_sessions)
      ''habit_logs'' ! 0) ''fecha_inicio'' = field (two_sessions ''habit_logs'' ! 0) ''fecha_inicio'' \<and>
   length (two_sessions ''habit_logs'') \<le>
     length (snd (run_db serial_schema (handler StartSession noon start_request) two_sessions)
       ''habit_logs'')"
proof -
  let ?p = "[(''user_id'', JStr ''u1''), (''habit_type_id'', JStr ''h1''),
             (''fecha_inicio'', JStr noon)]"
  have inserted: "Insert ''habit_logs'' ?p (Some ''id'') \<in>
      set (snd (run (replying JNull) (handler StartSession noon start_request)))"
    by (simp add: post_logs_session_start_def start_request_def body_request_def field_def)
  have second: "1 < length (two_sessions ''habit_logs'')"
    by (simp add: two_sessions_def)
  have first: "0 < length (two_sessions ''habit_logs'')"
    by (simp add: two_sessions_def)
  have other: "field (two_sessions ''habit_logs'' ! 1) ''id'' \<noteq> field (body_of end_request) ''logId''"
    by (simp add: two_sessions_def end_request_def body_request_def field_def)
  have column: "''fecha_inicio'' \<notin> {''fecha_fin'', ''duracion_segundos'', ''notas''}"
    by simp
  from habit_log_lifecycle [where p = ?p and ret = "Some ''id''" and s = "replying JNull"
      and op = StartSession and now = noon and req = start_request and d = two_sessions
      and t = "''habit_logs''" and j = 0] inserted first
  have start: "field ?p ''fecha_inicio'' = JStr noon \<and>
      length (two_sessions ''habit_logs'') \<le>
        length (snd (run_db serial_schema (handler StartSession noon start_request) two_sessions)
          ''habit_logs'')"
    by simp
  from habit_log_lifecycle [where now = noon and req = end_request and d = two_sessions
      and sc = serial_schema and i = 1] second other
  have unchanged: "snd (run_db serial_schema (put_logs_session_end noon end_request) two_sessions)
      ''habit_logs'' ! 1 = two_sessions ''habit_logs'' ! 1"
    by simp
  from habit_log_lifecycle [where now = noon and req = end_request and d = two_sessions
      and sc = serial_schema and i = 0 and k = "''fecha_inicio''"] first column
  have "field (snd (run_db serial_schema (put_logs_session_end noon end_request) two_sessions)
      ''habit_logs'' ! 0) ''fecha_inicio'' = field (two_sessions ''habit_logs'' ! 0) ''fecha_inicio''"
    by simp
  with start unchanged show ?thesis by simp
qed

end
